theory Spec2Isabelle
  imports Main
begin

section \<open>JavaScript values\<close>

text \<open>
  The facades of this SDK (Personality Insights, Tone Analyzer, Visual Recognition) shuffle
  untyped JavaScript values: they read properties of a \<open>params\<close> object, build object
  literals and merge them with the \<open>extend\<close> package. A plain object is an association
  list in insertion order; a key can be present with the value \<open>undefined\<close>, which is what
  an object literal \<open>{k: params.k}\<close> produces when \<open>params.k\<close> is absent.
  Numbers are only passed through by this code, so integers stand for them. A function is
  represented by its \<open>name\<close> property (the only property of a function that this code
  can read); buffers and streams are opaque.
\<close>

datatype jsval =
    JUndefined
  | JNull
  | JBool bool
  | JNum int
  | JStr string
  | JArr "jsval list"
  | JObj "(string \<times> jsval) list"
  | JFun string
  | JStream string

type_synonym jsobj = "(string \<times> jsval) list"

text \<open>\<open>obj[k]\<close>: the value of a property, \<open>undefined\<close> when the key is absent.\<close>

fun get :: "jsobj \<Rightarrow> string \<Rightarrow> jsval" where
  "get [] k = JUndefined"
| "get ((n, v) # ps) k = (if n = k then v else get ps k)"

text \<open>\<open>k in obj\<close>: the key is present, whatever its value.\<close>

fun has :: "jsobj \<Rightarrow> string \<Rightarrow> bool" where
  "has [] k = False"
| "has ((n, v) # ps) k = (n = k \<or> has ps k)"

text \<open>\<open>obj[k] = v\<close>: an existing key keeps its place, a new key goes last.\<close>

fun put :: "jsobj \<Rightarrow> string \<Rightarrow> jsval \<Rightarrow> jsobj" where
  "put [] k v = [(k, v)]"
| "put ((n, w) # ps) k v = (if n = k then (n, v) # ps else (n, w) # put ps k v)"

text \<open>Array reads and writes by index; a write past the end extends the array, as JavaScript
  does, the holes reading \<open>undefined\<close>.\<close>

definition getIdx :: "jsval list \<Rightarrow> nat \<Rightarrow> jsval" where
  "getIdx xs i = (if i < length xs then xs ! i else JUndefined)"

definition setIdx :: "jsval list \<Rightarrow> nat \<Rightarrow> jsval \<Rightarrow> jsval list" where
  "setIdx xs i v =
     (if i < length xs then xs[i := v]
      else xs @ replicate (i - length xs) JUndefined @ [v])"

subsection \<open>The \<open>extend\<close> package\<close>

text \<open>
  Every operation calls \<open>extend(true, this._options, {headers: {...}})\<close>. \<open>extend\<close> is
  the npm port of jQuery's: with a leading \<open>true\<close> it merges deeply, its first object
  argument is the \<^emph>\<open>target\<close>, which it writes into and returns, and for each property
  \<open>name\<close> of the other argument, with \<open>copy = options[name]\<close>:
  \<^item> a plain object or an array is merged recursively into \<open>target[name]\<close> when that is of
    the same kind, and into a fresh \<open>{}\<close> or \<open>[]\<close> otherwise;
  \<^item> \<open>undefined\<close> is skipped (``don't bring in undefined values'');
  \<^item> any other value is assigned.

  \<open>extendProps target options\<close> is the target after the loop over the properties of
  \<open>options\<close>; \<open>extendElems\<close> is the same loop over the indices of an array.
\<close>

function extendProps :: "jsobj \<Rightarrow> jsobj \<Rightarrow> jsobj"
  and extendElems :: "jsval list \<Rightarrow> nat \<Rightarrow> jsval list \<Rightarrow> jsval list" where
  "extendProps target [] = target"
| "extendProps target ((name, copy) # rest) =
     extendProps
       (case copy of
          JObj ps \<Rightarrow>
            put target name
              (JObj (extendProps (case get target name of JObj q \<Rightarrow> q | _ \<Rightarrow> []) ps))
        | JArr xs \<Rightarrow>
            put target name
              (JArr (extendElems (case get target name of JArr ys \<Rightarrow> ys | _ \<Rightarrow> []) 0 xs))
        | JUndefined \<Rightarrow> target
        | _ \<Rightarrow> put target name copy)
       rest"
| "extendElems target i [] = target"
| "extendElems target i (copy # rest) =
     extendElems
       (case copy of
          JObj ps \<Rightarrow>
            setIdx target i
              (JObj (extendProps (case getIdx target i of JObj q \<Rightarrow> q | _ \<Rightarrow> []) ps))
        | JArr xs \<Rightarrow>
            setIdx target i
              (JArr (extendElems (case getIdx target i of JArr ys \<Rightarrow> ys | _ \<Rightarrow> []) 0 xs))
        | JUndefined \<Rightarrow> target
        | _ \<Rightarrow> setIdx target i copy)
       (Suc i) rest"
  by pat_completeness auto
termination
  by (relation "measure (\<lambda>x. case x of
          Inl (t, s) \<Rightarrow> size_list (size_prod (\<lambda>_. 0) size) s
        | Inr (t, i, s) \<Rightarrow> size_list size s)") auto

section \<open>Arguments, errors and outcomes of a call\<close>

text \<open>
  The \<open>params\<close> argument of an operation: omitted (\<open>undefined\<close>), a parameter object, or
  a function (\<open>classify\<close>, \<open>detectFaces\<close> and \<open>listClassifiers\<close> accept the callback in
  its place). A callback is a function, named by its \<open>name\<close>.
\<close>

datatype arg = ArgUndefined | ArgObj jsobj | ArgFun string

type_synonym callback = string

text \<open>\<open>params || {}\<close>, as the bag of properties that can be read from it. Of a function's
  own properties only \<open>name\<close> is among the keys this code reads.\<close>

fun orEmpty :: "arg \<Rightarrow> jsobj" where
  "orEmpty ArgUndefined = []"
| "orEmpty (ArgObj ps) = ps"
| "orEmpty (ArgFun f) = [(''name'', JStr f)]"

datatype error =
    TypeError
  | Error string

text \<open>The part the caller hands to \<open>helper.buildRequestFileObject\<close> for a binary part of a
  multipart form. That helper lives in \<open>lib/helper\<close>; a form field \<open>FileObject fp\<close> stands
  for whatever it returns on \<open>fp\<close>.\<close>

record fileParams =
  data :: jsval
  contentType :: string

datatype formValue = Plain jsval | FileObject fileParams

text \<open>The \<open>options\<close> literal of a call; \<open>None\<close> is a key the literal does not have.
  The field \<open>httpMethod\<close> is the key \<open>method\<close> of the literal.\<close>

record reqOptions =
  url :: string
  httpMethod :: string
  json :: "bool option"
  body :: "jsval option"
  qs :: "jsobj option"
  path :: "jsobj option"
  formData :: "(string \<times> formValue) list option"

record parameters =
  options :: reqOptions
  defaultOptions :: jsobj

text \<open>
  How a call ends: \<open>return callback(missingParams)\<close>, \<open>return requestFactory(parameters,
  callback)\<close> (the request wrapper of \<open>lib/requestwrapper\<close> is reached with this descriptor
  and this callback), or an exception.
\<close>

datatype outcome =
    CallbackInvoked callback "string list"
  | Dispatched parameters "callback option"
  | Threw error

section \<open>The parameter validator\<close>

text \<open>
  Modelled from the spec: \<open>helper.getMissingParams\<close> of \<open>lib/helper\<close>, which is not among
  the sources. The spec (4.1): ``for each required key, the key is missing if params is absent
  the key entirely or its value is the absent/undefined sentinel (not merely falsy); returns
  keys in the same order as required''. The result is the sequence of missing keys, and the
  empty sequence means that validation passed; the call sites test it with
  \<open>if (missingParams && callback)\<close>, which is read here as ``the result is not empty''.
\<close>

fun getMissingParams :: "jsobj \<Rightarrow> string list \<Rightarrow> string list" where
  "getMissingParams params [] = []"
| "getMissingParams params (required # requires) =
     (if \<not> has params required \<or> get params required = JUndefined
      then required # getMissingParams params requires
      else getMissingParams params requires)"

section \<open>Construction\<close>

text \<open>
  All three constructors run \<open>BaseService.call(this, options)\<close>, which sets
  \<open>this._options\<close> or throws, then check \<open>this._options.version_date\<close> and store
  \<open>options.version_date\<close> under \<open>this._options.qs.version\<close>. \<open>BaseService\<close> lives in
  \<open>lib/base_service\<close> and is a parameter here: it maps the \<open>options\<close> argument
  (here \<open>user_options\<close>; \<open>None\<close> when omitted) to the \<open>_options\<close> it stores, or to
  the error it throws. The state of a facade instance is its \<open>_options\<close>
  (\<open>this_options\<close>).
\<close>

text \<open>\<open>this._options.qs.version = options.version_date\<close>, in strict mode: reading
  \<open>version_date\<close> of an omitted \<open>options\<close> and writing a property of \<open>undefined\<close>,
  \<open>null\<close> or a primitive throw a TypeError. A property written on an array, a function or
  a stream is not part of what is modelled of these values.\<close>

definition setVersion :: "jsobj \<Rightarrow> jsobj option \<Rightarrow> error + jsobj" where
  "setVersion this_options user_options =
     (case user_options of
        None \<Rightarrow> Inl TypeError
      | Some opts \<Rightarrow>
          (case get this_options ''qs'' of
             JObj q \<Rightarrow>
               Inr (put this_options ''qs'' (JObj (put q ''version'' (get opts ''version_date''))))
           | JArr xs \<Rightarrow> Inr this_options
           | JFun f \<Rightarrow> Inr this_options
           | JStream f \<Rightarrow> Inr this_options
           | _ \<Rightarrow> Inl TypeError))"

definition PersonalityInsightsV3Generated ::
    "(jsobj option \<Rightarrow> error + jsobj) \<Rightarrow> jsobj option \<Rightarrow> error + jsobj" where
  "PersonalityInsightsV3Generated BaseService user_options =
     (case BaseService user_options of
        Inl e \<Rightarrow> Inl e
      | Inr this_options \<Rightarrow>
          if get this_options ''version_date'' = JUndefined
          then Inl (Error ''Argument error: version_date was not specified'')
          else setVersion this_options user_options)"

definition ToneAnalyzerV3 ::
    "(jsobj option \<Rightarrow> error + jsobj) \<Rightarrow> jsobj option \<Rightarrow> error + jsobj" where
  "ToneAnalyzerV3 BaseService user_options =
     (case BaseService user_options of
        Inl e \<Rightarrow> Inl e
      | Inr this_options \<Rightarrow>
          if get this_options ''version_date'' = JUndefined
          then Inl (Error ''Argument error: version_date was not specified, use '')
          else setVersion this_options user_options)"

definition VisualRecognitionV3 ::
    "(jsobj option \<Rightarrow> error + jsobj) \<Rightarrow> jsobj option \<Rightarrow> error + jsobj" where
  "VisualRecognitionV3 BaseService user_options =
     (case BaseService user_options of
        Inl e \<Rightarrow> Inl e
      | Inr this_options \<Rightarrow>
          if get this_options ''version_date'' = JUndefined
          then Inl (Error ''Argument error: version_date was not specified'')
          else setVersion this_options user_options)"

section \<open>Personality Insights\<close>

text \<open>
  Each operation takes the instance's \<open>_options\<close>, \<open>params\<close> and the optional callback,
  and returns how the call ends together with the instance's \<open>_options\<close> afterwards.
  \<open>extend(true, this._options, ...)\<close> has \<open>this._options\<close> as its target: the merged
  object it returns, which becomes \<open>defaultOptions\<close>, is \<open>this._options\<close> itself.
  Reading a property of an omitted \<open>params\<close> throws a TypeError.
\<close>

definition profile :: "jsobj \<Rightarrow> arg \<Rightarrow> callback option \<Rightarrow> outcome \<times> jsobj" where
  "profile this_options params callback =
     (let requiredParams = [''content'', ''content_type''];
          missingParams = getMissingParams (orEmpty params) requiredParams
      in case (missingParams \<noteq> [], callback) of
           (True, Some cb) \<Rightarrow> (CallbackInvoked cb missingParams, this_options)
         | _ \<Rightarrow>
           (case params of
              ArgUndefined \<Rightarrow> (Threw TypeError, this_options)
            | _ \<Rightarrow>
              (let p = orEmpty params;
                   body = get p ''content'';
                   query = [(''raw_scores'', get p ''raw_scores''),
                            (''csv_headers'', get p ''csv_headers''),
                            (''consumption_preferences'', get p ''consumption_preferences'')];
                   merged = extendProps this_options
                     [(''headers'', JObj
                        [(''accept'', JStr ''application/json''),
                         (''content-type'', get p ''content_type''),
                         (''content-language'', get p ''content_language''),
                         (''accept-language'', get p ''accept_language'')])]
               in (Dispatched
                     \<lparr>options =
                        \<lparr>url = ''/v3/profile'', httpMethod = ''POST'',
                         json = Some (get p ''content_type'' = JStr ''application/json''),
                         body = Some body, qs = Some query, path = None, formData = None\<rparr>,
                      defaultOptions = merged\<rparr>
                     callback,
                   merged))))"

definition profile_csv :: "jsobj \<Rightarrow> arg \<Rightarrow> callback option \<Rightarrow> outcome \<times> jsobj" where
  "profile_csv this_options params callback =
     (let requiredParams = [''content'', ''content_type''];
          missingParams = getMissingParams (orEmpty params) requiredParams
      in case (missingParams \<noteq> [], callback) of
           (True, Some cb) \<Rightarrow> (CallbackInvoked cb missingParams, this_options)
         | _ \<Rightarrow>
           (case params of
              ArgUndefined \<Rightarrow> (Threw TypeError, this_options)
            | _ \<Rightarrow>
              (let p = orEmpty params;
                   body = get p ''content'';
                   query = [(''raw_scores'', get p ''raw_scores''),
                            (''csv_headers'', get p ''csv_headers''),
                            (''consumption_preferences'', get p ''consumption_preferences'')];
                   merged = extendProps this_options
                     [(''headers'', JObj
                        [(''accept'', JStr ''text/csv''),
                         (''content-type'', get p ''content_type''),
                         (''content-language'', get p ''content_language''),
                         (''accept-language'', get p ''accept_language'')])]
               in (Dispatched
                     \<lparr>options =
                        \<lparr>url = ''/v3/profile'', httpMethod = ''POST'',
                         json = Some (get p ''content_type'' = JStr ''application/json''),
                         body = Some body, qs = Some query, path = None, formData = None\<rparr>,
                      defaultOptions = merged\<rparr>
                     callback,
                   merged))))"

section \<open>Tone Analyzer\<close>

definition tone :: "jsobj \<Rightarrow> arg \<Rightarrow> callback option \<Rightarrow> outcome \<times> jsobj" where
  "tone this_options params callback =
     (let requiredParams = [''tone_input'', ''content_type''];
          missingParams = getMissingParams (orEmpty params) requiredParams
      in case (missingParams \<noteq> [], callback) of
           (True, Some cb) \<Rightarrow> (CallbackInvoked cb missingParams, this_options)
         | _ \<Rightarrow>
           (case params of
              ArgUndefined \<Rightarrow> (Threw TypeError, this_options)
            | _ \<Rightarrow>
              (let p = orEmpty params;
                   body = get p ''tone_input'';
                   query = [(''sentences'', get p ''sentences''), (''tones'', get p ''tones'')];
                   merged = extendProps this_options
                     [(''headers'', JObj
                        [(''accept'', JStr ''application/json''),
                         (''content-type'', get p ''content_type''),
                         (''content-language'', get p ''content_language''),
                         (''accept-language'', get p ''accept_language'')])]
               in (Dispatched
                     \<lparr>options =
                        \<lparr>url = ''/v3/tone'', httpMethod = ''POST'',
                         json = Some (get p ''content_type'' = JStr ''application/json''),
                         body = Some body, qs = Some query, path = None, formData = None\<rparr>,
                      defaultOptions = merged\<rparr>
                     callback,
                   merged))))"

definition toneChat :: "jsobj \<Rightarrow> arg \<Rightarrow> callback option \<Rightarrow> outcome \<times> jsobj" where
  "toneChat this_options params callback =
     (let requiredParams = [''utterances''];
          missingParams = getMissingParams (orEmpty params) requiredParams
      in case (missingParams \<noteq> [], callback) of
           (True, Some cb) \<Rightarrow> (CallbackInvoked cb missingParams, this_options)
         | _ \<Rightarrow>
           (case params of
              ArgUndefined \<Rightarrow> (Threw TypeError, this_options)
            | _ \<Rightarrow>
              (let p = orEmpty params;
                   body = JObj [(''utterances'', get p ''utterances'')];
                   merged = extendProps this_options
                     [(''headers'', JObj
                        [(''accept'', JStr ''application/json''),
                         (''content-type'', JStr ''application/json''),
                         (''accept-language'', get p ''accept_language'')])]
               in (Dispatched
                     \<lparr>options =
                        \<lparr>url = ''/v3/tone_chat'', httpMethod = ''POST'',
                         json = Some True,
                         body = Some body, qs = None, path = None, formData = None\<rparr>,
                      defaultOptions = merged\<rparr>
                     callback,
                   merged))))"

section \<open>Visual Recognition\<close>

text \<open>
  \<open>classify\<close>, \<open>detectFaces\<close> and \<open>listClassifiers\<close> have no required parameters. They
  start with \<open>params = params || {}\<close> and, when \<open>params\<close> is a function and there is no
  callback, take it as the callback and \<open>{}\<close> as the parameters. In \<open>classify\<close> and
  \<open>detectFaces\<close> the content type handed to \<open>helper.buildRequestFileObject\<close> is the
  source literal \<^verbatim>\<open>'"application/octet-stream"'\<close>, whose first and last characters are
  double quotes (\<open>CHR 0x22\<close>).
\<close>

definition classify :: "jsobj \<Rightarrow> arg \<Rightarrow> callback option \<Rightarrow> outcome \<times> jsobj" where
  "classify this_options params callback =
     (case (case (params, callback) of
              (ArgFun f, None) \<Rightarrow> ([], Some f)
            | _ \<Rightarrow> (orEmpty params, callback)) of
        (p, callback') \<Rightarrow>
          (let formData =
                 [(''images_file'', FileObject
                     \<lparr>data = get p ''images_file'',
                      contentType = CHR 0x22 # ''application/octet-stream'' @ [CHR 0x22]\<rparr>),
                  (''parameters'', Plain (get p ''parameters''))];
               merged = extendProps this_options
                 [(''headers'', JObj
                    [(''accept'', JStr ''application/json''),
                     (''content-type'', JStr ''multipart/form-data''),
                     (''accept_language'', get p ''accept_language'')])]
           in (Dispatched
                 \<lparr>options =
                    \<lparr>url = ''/v3/classify'', httpMethod = ''POST'',
                     json = None, body = None, qs = None, path = None,
                     formData = Some formData\<rparr>,
                  defaultOptions = merged\<rparr>
                 callback',
               merged)))"

definition detectFaces :: "jsobj \<Rightarrow> arg \<Rightarrow> callback option \<Rightarrow> outcome \<times> jsobj" where
  "detectFaces this_options params callback =
     (case (case (params, callback) of
              (ArgFun f, None) \<Rightarrow> ([], Some f)
            | _ \<Rightarrow> (orEmpty params, callback)) of
        (p, callback') \<Rightarrow>
          (let formData =
                 [(''images_file'', FileObject
                     \<lparr>data = get p ''images_file'',
                      contentType = CHR 0x22 # ''application/octet-stream'' @ [CHR 0x22]\<rparr>),
                  (''parameters'', Plain (get p ''parameters''))];
               merged = extendProps this_options
                 [(''headers'', JObj
                    [(''accept'', JStr ''application/json''),
                     (''content-type'', JStr ''multipart/form-data'')])]
           in (Dispatched
                 \<lparr>options =
                    \<lparr>url = ''/v3/detect_faces'', httpMethod = ''POST'',
                     json = None, body = None, qs = None, path = None,
                     formData = Some formData\<rparr>,
                  defaultOptions = merged\<rparr>
                 callback',
               merged)))"

definition createClassifier :: "jsobj \<Rightarrow> arg \<Rightarrow> callback option \<Rightarrow> outcome \<times> jsobj" where
  "createClassifier this_options params callback =
     (let requiredParams = [''name'', ''classname_positive_examples''];
          missingParams = getMissingParams (orEmpty params) requiredParams
      in case (missingParams \<noteq> [], callback) of
           (True, Some cb) \<Rightarrow> (CallbackInvoked cb missingParams, this_options)
         | _ \<Rightarrow>
           (case params of
              ArgUndefined \<Rightarrow> (Threw TypeError, this_options)
            | _ \<Rightarrow>
              (let p = orEmpty params;
                   formData =
                     [(''name'', Plain (get p ''name'')),
                      (''classname_positive_examples'', FileObject
                         \<lparr>data = get p ''classname_positive_examples'',
                          contentType = ''application/octet-stream''\<rparr>),
                      (''negative_examples'', FileObject
                         \<lparr>data = get p ''negative_examples'',
                          contentType = ''application/octet-stream''\<rparr>)];
                   merged = extendProps this_options
                     [(''headers'', JObj
                        [(''accept'', JStr ''application/json''),
                         (''content-type'', JStr ''multipart/form-data'')])]
               in (Dispatched
                     \<lparr>options =
                        \<lparr>url = ''/v3/classifiers'', httpMethod = ''POST'',
                         json = None, body = None, qs = None, path = None,
                         formData = Some formData\<rparr>,
                      defaultOptions = merged\<rparr>
                     callback,
                   merged))))"

definition deleteClassifier :: "jsobj \<Rightarrow> arg \<Rightarrow> callback option \<Rightarrow> outcome \<times> jsobj" where
  "deleteClassifier this_options params callback =
     (let requiredParams = [''classifier_id''];
          missingParams = getMissingParams (orEmpty params) requiredParams
      in case (missingParams \<noteq> [], callback) of
           (True, Some cb) \<Rightarrow> (CallbackInvoked cb missingParams, this_options)
         | _ \<Rightarrow>
           (case params of
              ArgUndefined \<Rightarrow> (Threw TypeError, this_options)
            | _ \<Rightarrow>
              (let p = orEmpty params;
                   path = [(''classifier_id'', get p ''classifier_id'')];
                   merged = extendProps this_options
                     [(''headers'', JObj
                        [(''accept'', JStr ''application/json''),
                         (''content-type'', JStr ''application/json'')])]
               in (Dispatched
                     \<lparr>options =
                        \<lparr>url = ''/v3/classifiers/{classifier_id}'', httpMethod = ''DELETE'',
                         json = None, body = None, qs = None, path = Some path,
                         formData = None\<rparr>,
                      defaultOptions = merged\<rparr>
                     callback,
                   merged))))"

definition getClassifier :: "jsobj \<Rightarrow> arg \<Rightarrow> callback option \<Rightarrow> outcome \<times> jsobj" where
  "getClassifier this_options params callback =
     (let requiredParams = [''classifier_id''];
          missingParams = getMissingParams (orEmpty params) requiredParams
      in case (missingParams \<noteq> [], callback) of
           (True, Some cb) \<Rightarrow> (CallbackInvoked cb missingParams, this_options)
         | _ \<Rightarrow>
           (case params of
              ArgUndefined \<Rightarrow> (Threw TypeError, this_options)
            | _ \<Rightarrow>
              (let p = orEmpty params;
                   path = [(''classifier_id'', get p ''classifier_id'')];
                   merged = extendProps this_options
                     [(''headers'', JObj
                        [(''accept'', JStr ''application/json''),
                         (''content-type'', JStr ''application/json'')])]
               in (Dispatched
                     \<lparr>options =
                        \<lparr>url = ''/v3/classifiers/{classifier_id}'', httpMethod = ''GET'',
                         json = None, body = None, qs = None, path = Some path,
                         formData = None\<rparr>,
                      defaultOptions = merged\<rparr>
                     callback,
                   merged))))"

definition listClassifiers :: "jsobj \<Rightarrow> arg \<Rightarrow> callback option \<Rightarrow> outcome \<times> jsobj" where
  "listClassifiers this_options params callback =
     (case (case (params, callback) of
              (ArgFun f, None) \<Rightarrow> ([], Some f)
            | _ \<Rightarrow> (orEmpty params, callback)) of
        (p, callback') \<Rightarrow>
          (let query = [(''verbose'', get p ''verbose'')];
               merged = extendProps this_options
                 [(''headers'', JObj
                    [(''accept'', JStr ''application/json''),
                     (''content-type'', JStr ''application/json'')])]
           in (Dispatched
                 \<lparr>options =
                    \<lparr>url = ''/v3/classifiers'', httpMethod = ''GET'',
                     json = None, body = None, qs = Some query, path = None,
                     formData = None\<rparr>,
                  defaultOptions = merged\<rparr>
                 callback',
               merged)))"

definition updateClassifier :: "jsobj \<Rightarrow> arg \<Rightarrow> callback option \<Rightarrow> outcome \<times> jsobj" where
  "updateClassifier this_options params callback =
     (let requiredParams = [''classifier_id''];
          missingParams = getMissingParams (orEmpty params) requiredParams
      in case (missingParams \<noteq> [], callback) of
           (True, Some cb) \<Rightarrow> (CallbackInvoked cb missingParams, this_options)
         | _ \<Rightarrow>
           (case params of
              ArgUndefined \<Rightarrow> (Threw TypeError, this_options)
            | _ \<Rightarrow>
              (let p = orEmpty params;
                   formData =
                     [(''classname_positive_examples'', FileObject
                         \<lparr>data = get p ''classname_positive_examples'',
                          contentType = ''application/octet-stream''\<rparr>),
                      (''negative_examples'', FileObject
                         \<lparr>data = get p ''negative_examples'',
                          contentType = ''application/octet-stream''\<rparr>)];
                   path = [(''classifier_id'', get p ''classifier_id'')];
                   merged = extendProps this_options
                     [(''headers'', JObj
                        [(''accept'', JStr ''application/json''),
                         (''content-type'', JStr ''multipart/form-data'')])]
               in (Dispatched
                     \<lparr>options =
                        \<lparr>url = ''/v3/classifiers/{classifier_id}'', httpMethod = ''POST'',
                         json = None, body = None, qs = None, path = Some path,
                         formData = Some formData\<rparr>,
                      defaultOptions = merged\<rparr>
                     callback,
                   merged))))"

section \<open>All operations\<close>

datatype operation =
    Profile | ProfileCsv
  | Tone | ToneChat
  | Classify | DetectFaces | CreateClassifier | DeleteClassifier | GetClassifier
  | ListClassifiers | UpdateClassifier

fun run :: "operation \<Rightarrow> jsobj \<Rightarrow> arg \<Rightarrow> callback option \<Rightarrow> outcome \<times> jsobj" where
  "run Profile = profile"
| "run ProfileCsv = profile_csv"
| "run Tone = tone"
| "run ToneChat = toneChat"
| "run Classify = classify"
| "run DetectFaces = detectFaces"
| "run CreateClassifier = createClassifier"
| "run DeleteClassifier = deleteClassifier"
| "run GetClassifier = getClassifier"
| "run ListClassifiers = listClassifiers"
| "run UpdateClassifier = updateClassifier"

text \<open>The \<open>requiredParams\<close> list each operation declares (none for the three operations
  whose \<open>params\<close> is optional).\<close>

fun requiredParamsOf :: "operation \<Rightarrow> string list" where
  "requiredParamsOf Profile = [''content'', ''content_type'']"
| "requiredParamsOf ProfileCsv = [''content'', ''content_type'']"
| "requiredParamsOf Tone = [''tone_input'', ''content_type'']"
| "requiredParamsOf ToneChat = [''utterances'']"
| "requiredParamsOf Classify = []"
| "requiredParamsOf DetectFaces = []"
| "requiredParamsOf CreateClassifier = [''name'', ''classname_positive_examples'']"
| "requiredParamsOf DeleteClassifier = [''classifier_id'']"
| "requiredParamsOf GetClassifier = [''classifier_id'']"
| "requiredParamsOf ListClassifiers = []"
| "requiredParamsOf UpdateClassifier = [''classifier_id'']"

text \<open>A sequence of calls on one instance: each call sees the \<open>_options\<close> the previous one
  left.\<close>

fun calls :: "jsobj \<Rightarrow> (operation \<times> arg \<times> callback option) list \<Rightarrow> jsobj" where
  "calls this_options [] = this_options"
| "calls this_options ((op, params, callback) # later) =
     calls (snd (run op this_options params callback)) later"

section \<open>Reading a descriptor\<close>

text \<open>The headers of a call are the \<open>headers\<close> object of its \<open>defaultOptions\<close>.\<close>

definition header :: "jsobj \<Rightarrow> string \<Rightarrow> jsval" where
  "header opts h = (case get opts ''headers'' of JObj hs \<Rightarrow> get hs h | _ \<Rightarrow> JUndefined)"

definition setHeader :: "jsobj \<Rightarrow> string \<Rightarrow> jsval \<Rightarrow> jsobj" where
  "setHeader opts h v =
     put opts ''headers''
       (JObj (put (case get opts ''headers'' of JObj hs \<Rightarrow> hs | _ \<Rightarrow> []) h v))"

text \<open>The descriptor that reached the request wrapper, if the call got there, and its query
  and form-data mappings.\<close>

definition descriptor :: "outcome \<Rightarrow> parameters option" where
  "descriptor out = (case out of Dispatched d c \<Rightarrow> Some d | _ \<Rightarrow> None)"

definition queryOf :: "outcome \<Rightarrow> jsobj option" where
  "queryOf out = (case descriptor out of Some d \<Rightarrow> qs (options d) | None \<Rightarrow> None)"

definition formDataOf :: "outcome \<Rightarrow> (string \<times> formValue) list option" where
  "formDataOf out = (case descriptor out of Some d \<Rightarrow> formData (options d) | None \<Rightarrow> None)"

text \<open>The caller's value behind a form field, and the binary parts of a form.\<close>

fun formValueData :: "formValue \<Rightarrow> jsval" where
  "formValueData (Plain v) = v"
| "formValueData (FileObject fp) = data fp"

fun fileParts :: "(string \<times> formValue) list \<Rightarrow> (string \<times> fileParams) list" where
  "fileParts [] = []"
| "fileParts ((k, Plain v) # fs) = fileParts fs"
| "fileParts ((k, FileObject fp) # fs) = (k, fp) # fileParts fs"

text \<open>The keys of the \<open>query\<close> and \<open>formData\<close> literals of each operation, as written in
  the sources (\<open>None\<close>: the operation has no such literal).\<close>

fun queryKeysOf :: "operation \<Rightarrow> string list option" where
  "queryKeysOf Profile = Some [''raw_scores'', ''csv_headers'', ''consumption_preferences'']"
| "queryKeysOf ProfileCsv = Some [''raw_scores'', ''csv_headers'', ''consumption_preferences'']"
| "queryKeysOf Tone = Some [''sentences'', ''tones'']"
| "queryKeysOf ListClassifiers = Some [''verbose'']"
| "queryKeysOf _ = None"

fun formKeysOf :: "operation \<Rightarrow> string list option" where
  "formKeysOf Classify = Some [''images_file'', ''parameters'']"
| "formKeysOf DetectFaces = Some [''images_file'', ''parameters'']"
| "formKeysOf CreateClassifier =
     Some [''name'', ''classname_positive_examples'', ''negative_examples'']"
| "formKeysOf UpdateClassifier = Some [''classname_positive_examples'', ''negative_examples'']"
| "formKeysOf _ = None"

section \<open>Properties of the helpers\<close>

lemmas operation_defs =
  profile_def profile_csv_def tone_def toneChat_def classify_def detectFaces_def
  createClassifier_def deleteClassifier_def getClassifier_def listClassifiers_def
  updateClassifier_def

lemma get_absent: "\<not> has P k \<Longrightarrow> get P k = JUndefined"
  by (induction P) auto

lemma get_defined: "get P k \<noteq> JUndefined \<Longrightarrow> has P k"
  using get_absent by blast

lemma getMissingParams_filter:
  "getMissingParams P R = filter (\<lambda>k. get P k = JUndefined) R"
  by (induction R) (auto simp: get_absent)

section \<open>The validator returns the missing keys, in order\<close>

text \<open>
  C5. For every parameter mapping \<open>P\<close> and every list \<open>R\<close> of required keys,
  \<open>getMissingParams P R\<close> is exactly the subsequence of \<open>R\<close> of the keys that are absent
  from \<open>P\<close> or mapped to \<open>undefined\<close>, in the order of \<open>R\<close>; it is empty if and only if
  every key of \<open>R\<close> is present in \<open>P\<close> with a value other than \<open>undefined\<close>; and a key
  mapped to \<open>false\<close>, \<open>0\<close> or the empty string is never reported.
\<close>

theorem getMissingParams_exact:
  "getMissingParams P R = filter (\<lambda>k. \<not> has P k \<or> get P k = JUndefined) R
   \<and> (getMissingParams P R = [] \<longleftrightarrow> (\<forall>k \<in> set R. has P k \<and> get P k \<noteq> JUndefined))
   \<and> (\<forall>k \<in> set R. get P k \<in> {JBool False, JNum 0, JStr ''''} \<longrightarrow>
          k \<notin> set (getMissingParams P R))"
proof -
  have eq: "getMissingParams P R = filter (\<lambda>k. \<not> has P k \<or> get P k = JUndefined) R"
    by (induction R) auto
  have empty: "getMissingParams P R = [] \<longleftrightarrow> (\<forall>k \<in> set R. has P k \<and> get P k \<noteq> JUndefined)"
    unfolding eq by (auto simp: filter_empty_conv)
  have falsy: "\<forall>k \<in> set R. get P k \<in> {JBool False, JNum 0, JStr ''''} \<longrightarrow>
          k \<notin> set (getMissingParams P R)"
    unfolding eq by (auto intro!: get_defined)
  from eq empty falsy show ?thesis by blast
qed

theorem getMissingParams_exact_witness:
  "getMissingParams
     [(''content'', JStr ''''), (''raw_scores'', JBool False), (''n'', JNum 0),
      (''content_language'', JUndefined)]
     [''content_type'', ''content'', ''content_language'', ''raw_scores'', ''n'']
   = [''content_type'', ''content_language'']
   \<and> getMissingParams [(''content'', JStr ''''), (''content_type'', JStr ''text/plain'')]
        [''content'', ''content_type''] = []"
  using
    getMissingParams_exact
      [of "[(''content'', JStr ''''), (''raw_scores'', JBool False), (''n'', JNum 0),
            (''content_language'', JUndefined)]"
          "[''content_type'', ''content'', ''content_language'', ''raw_scores'', ''n'']"]
    getMissingParams_exact
      [of "[(''content'', JStr ''''), (''content_type'', JStr ''text/plain'')]"
          "[''content'', ''content_type'']"]
  by simp

section \<open>Missing required parameters\<close>

text \<open>
  C3. For every operation, every \<open>params\<close> in which a key \<open>k\<close> of the operation's required
  list is absent or \<open>undefined\<close>, and every supplied callback \<open>cb\<close>: the call ends in
  \<open>return callback(missingParams)\<close>, that is the callback is invoked once with the result of
  the validator, which reports \<open>k\<close>; the request wrapper is not reached, and the instance's
  \<open>_options\<close> are as before.
\<close>

theorem missing_with_callback:
  assumes "k \<in> set (requiredParamsOf op)" and "get (orEmpty params) k = JUndefined"
  shows "run op this_options params (Some cb) =
           (CallbackInvoked cb (getMissingParams (orEmpty params) (requiredParamsOf op)),
            this_options)
         \<and> k \<in> set (getMissingParams (orEmpty params) (requiredParamsOf op))
         \<and> (\<forall>d c. fst (run op this_options params (Some cb)) \<noteq> Dispatched d c)"
proof -
  let ?m = "getMissingParams (orEmpty params) (requiredParamsOf op)"
  from assms have k: "k \<in> set ?m"
    by (simp add: getMissingParams_filter)
  then have ne: "?m \<noteq> []" by auto
  have "run op this_options params (Some cb) = (CallbackInvoked cb ?m, this_options)"
    using ne assms(1) by (cases op) (simp_all add: operation_defs)
  with k show ?thesis by simp
qed

theorem missing_with_callback_witness:
  "run Tone [(''qs'', JObj [(''version'', JStr ''2017-09-21'')])]
     (ArgObj [(''tone_input'', JStr ''I am happy'')]) (Some ''done'')
   = (CallbackInvoked ''done'' [''content_type''],
      [(''qs'', JObj [(''version'', JStr ''2017-09-21'')])])"
  using missing_with_callback
    [of "''content_type''" Tone "ArgObj [(''tone_input'', JStr ''I am happy'')]"
        "[(''qs'', JObj [(''version'', JStr ''2017-09-21'')])]" "''done''"]
  by simp

section \<open>Properties of \<open>extend\<close>\<close>

lemma get_put: "get (put t n v) k = (if k = n then v else get t k)"
  by (induction t) auto

lemma has_put: "has (put t n v) k = (k = n \<or> has t k)"
  by (induction t) (auto split: if_splits)

lemma put_put_same: "put (put t k a) k b = put t k b"
  by (induction t) auto

lemma put_put_commute:
  "has t k \<Longrightarrow> n \<noteq> k \<Longrightarrow> put (put t n x) k v = put (put t k v) n x"
  by (induction t) auto

text \<open>A key that the merged-in object does not mention keeps its value.\<close>

lemma get_extendProps_other:
  "k \<notin> fst ` set src \<Longrightarrow> get (extendProps t src) k = get t k"
proof (induction src arbitrary: t)
  case Nil
  then show ?case by simp
next
  case (Cons a src)
  obtain n c where a: "a = (n, c)" by (cases a)
  with Cons.prems have nk: "n \<noteq> k" and rest: "k \<notin> fst ` set src" by auto
  show ?case
    unfolding a using nk Cons.IH [OF rest]
    by (cases c) (simp_all add: get_put)
qed

text \<open>Writing a key that is already there commutes with merging other keys.\<close>

lemma put_extendProps_commute:
  "has t k \<Longrightarrow> k \<notin> fst ` set src \<Longrightarrow>
     put (extendProps t src) k v = extendProps (put t k v) src"
proof (induction src arbitrary: t)
  case Nil
  then show ?case by simp
next
  case (Cons a src)
  obtain n c where a: "a = (n, c)" by (cases a)
  with Cons.prems have nk: "n \<noteq> k" and rest: "k \<notin> fst ` set src" by auto
  show ?case
    unfolding a using nk Cons.prems(1) Cons.IH [OF _ rest]
    by (cases c) (simp_all add: has_put get_put put_put_commute)
qed

lemma header_merged:
  "header (extendProps t [(''headers'', JObj hs)]) h =
     get (extendProps (case get t ''headers'' of JObj q \<Rightarrow> q | _ \<Rightarrow> []) hs) h"
  by (simp add: header_def get_put)

lemma get_extendProps_first:
  "k \<notin> fst ` set rest \<Longrightarrow> get (extendProps t ((k, JStr v) # rest)) k = JStr v"
  by (simp add: get_extendProps_other get_put)

lemma header_setHeader: "header (setHeader d k v) h = (if h = k then v else header d h)"
  by (simp add: header_def setHeader_def get_put split: jsval.splits)

lemma get_setHeader: "n \<noteq> ''headers'' \<Longrightarrow> get (setHeader d k v) n = get d n"
  by (simp add: setHeader_def get_put)

lemma setHeader_merged:
  assumes "k \<notin> fst ` set rest"
  shows "setHeader (extendProps t [(''headers'', JObj ((k, JStr a) # rest))]) k (JStr b) =
           extendProps t [(''headers'', JObj ((k, JStr b) # rest))]"
proof -
  let ?h = "case get t ''headers'' of JObj q \<Rightarrow> q | _ \<Rightarrow> []"
  have "put (extendProps (put ?h k (JStr a)) rest) k (JStr b) =
          extendProps (put ?h k (JStr b)) rest"
    using assms by (simp add: put_extendProps_commute has_put put_put_same)
  then show ?thesis
    by (simp add: setHeader_def get_put put_put_same)
qed

lemma required_present_obj:
  "getMissingParams (orEmpty params) (r # rs) = [] \<Longrightarrow> params \<noteq> ArgUndefined"
  by (cases params) auto

section \<open>Missing required parameters and no callback\<close>

text \<open>
  C2, as the code has it. For every operation, every parameter object \<open>P\<close> in which a key
  \<open>k\<close> of the operation's required list is absent or \<open>undefined\<close>, and no callback: the
  call raises no error and invokes no callback. The guard is
  \<open>if (missingParams && callback)\<close>, and no operation has a \<open>throw\<close>: without a callback
  the result of the validator is not used.
\<close>

theorem no_throw_without_callback:
  assumes "k \<in> set (requiredParamsOf op)" and "get P k = JUndefined"
  shows "(\<forall>e. fst (run op this_options (ArgObj P) None) \<noteq> Threw e)
       \<and> (\<forall>cb m. fst (run op this_options (ArgObj P) None) \<noteq> CallbackInvoked cb m)"
  by (cases op) (simp_all add: operation_defs Let_def del: extendProps.simps)

theorem no_throw_without_callback_witness:
  "fst (run Profile [(''qs'', JObj [(''version'', JStr ''2017-10-13'')])]
          (ArgObj [(''content_type'', JStr ''text/plain'')]) None) \<noteq> Threw TypeError
   \<and> fst (run Profile [(''qs'', JObj [(''version'', JStr ''2017-10-13'')])]
          (ArgObj [(''content_type'', JStr ''text/plain'')]) None)
       \<noteq> CallbackInvoked ''done'' [''content'']"
  using no_throw_without_callback
    [of "''content''" Profile "[(''content_type'', JStr ''text/plain'')]"
        "[(''qs'', JObj [(''version'', JStr ''2017-10-13'')])]"]
  by simp

text \<open>
  The spec's sentence does not hold of the code: \<open>profile({content_type: 'text/plain'})\<close> with no callback lacks
  the required \<open>content\<close>, raises nothing and reaches the request wrapper with a descriptor
  whose body is \<open>undefined\<close>.
\<close>

theorem missing_without_callback_dispatches:
  "getMissingParams [(''content_type'', JStr ''text/plain'')] (requiredParamsOf Profile)
     = [''content'']
   \<and> fst (run Profile [(''qs'', JObj [(''version'', JStr ''2017-10-13'')])]
          (ArgObj [(''content_type'', JStr ''text/plain'')]) None)
     = Dispatched
         \<lparr>options =
            \<lparr>url = ''/v3/profile'', httpMethod = ''POST'', json = Some False,
             body = Some JUndefined,
             qs = Some [(''raw_scores'', JUndefined), (''csv_headers'', JUndefined),
                        (''consumption_preferences'', JUndefined)],
             path = None, formData = None\<rparr>,
          defaultOptions =
            [(''qs'', JObj [(''version'', JStr ''2017-10-13'')]),
             (''headers'', JObj [(''accept'', JStr ''application/json''),
                                 (''content-type'', JStr ''text/plain'')])]\<rparr>
         None"
  by (simp add: profile_def Let_def)

section \<open>Absent optional parameters\<close>

text \<open>
  C4, as the code has it. For every operation and every parameter object \<open>P\<close>, the query
  mapping and the form-data mapping of the descriptor have exactly the keys of the
  operation's literals, whatever \<open>P\<close> holds, and each key carries the caller's value for
  the parameter of that name: a query entry and a plain form field are \<open>P[k]\<close> itself, a
  binary form field is built from \<open>data = P[k]\<close>. So the key of an absent optional
  parameter is present, with the value \<open>undefined\<close> (never \<open>null\<close> or an empty string).
\<close>

theorem dispatched_fields:
  assumes "run op this_options (ArgObj P) callback = (Dispatched d c, this_options')"
  shows "qs (options d) = map_option (map (\<lambda>k. (k, get P k))) (queryKeysOf op)
       \<and> map_option (map (\<lambda>(k, v). (k, formValueData v))) (formData (options d))
           = map_option (map (\<lambda>k. (k, get P k))) (formKeysOf op)"
  using assms
  by (cases op; cases callback)
     (auto simp: operation_defs Let_def split: if_splits simp del: extendProps.simps)

theorem dispatched_fields_witness:
  "qs (options
        \<lparr>options =
            \<lparr>url = ''/v3/classifiers'', httpMethod = ''GET'', json = None, body = None,
             qs = Some [(''verbose'', JUndefined)], path = None, formData = None\<rparr>,
         defaultOptions =
           [(''headers'', JObj [(''accept'', JStr ''application/json''),
                                (''content-type'', JStr ''application/json'')])]\<rparr>)
     = Some [(''verbose'', JUndefined)]
   \<and> run ListClassifiers [] (ArgObj []) None =
      (Dispatched
         \<lparr>options =
            \<lparr>url = ''/v3/classifiers'', httpMethod = ''GET'', json = None, body = None,
             qs = Some [(''verbose'', JUndefined)], path = None, formData = None\<rparr>,
          defaultOptions =
            [(''headers'', JObj [(''accept'', JStr ''application/json''),
                                 (''content-type'', JStr ''application/json'')])]\<rparr>
         None,
       [(''headers'', JObj [(''accept'', JStr ''application/json''),
                            (''content-type'', JStr ''application/json'')])])"
proof -
  have r: "run ListClassifiers [] (ArgObj []) None =
      (Dispatched
         \<lparr>options =
            \<lparr>url = ''/v3/classifiers'', httpMethod = ''GET'', json = None, body = None,
             qs = Some [(''verbose'', JUndefined)], path = None, formData = None\<rparr>,
          defaultOptions =
            [(''headers'', JObj [(''accept'', JStr ''application/json''),
                                 (''content-type'', JStr ''application/json'')])]\<rparr>
         None,
       [(''headers'', JObj [(''accept'', JStr ''application/json''),
                            (''content-type'', JStr ''application/json'')])])"
    by (simp add: listClassifiers_def Let_def)
  from dispatched_fields [OF r] r show ?thesis by simp
qed

text \<open>
  The spec's sentence does not hold of the code: \<open>profile\<close> called without \<open>raw_scores\<close> builds a query mapping
  that has the key \<open>raw_scores\<close>, and \<open>classify\<close> called without \<open>images_file\<close> builds form
  data with an \<open>images_file\<close> entry.
\<close>

theorem absent_optional_key_present:
  "\<not> has [(''content'', JStr ''hello''), (''content_type'', JStr ''text/plain'')] ''raw_scores''
   \<and> queryOf (fst (run Profile [(''qs'', JObj [(''version'', JStr ''2017-10-13'')])]
         (ArgObj [(''content'', JStr ''hello''), (''content_type'', JStr ''text/plain'')]) None))
     = Some [(''raw_scores'', JUndefined), (''csv_headers'', JUndefined),
             (''consumption_preferences'', JUndefined)]
   \<and> has [(''raw_scores'', JUndefined), (''csv_headers'', JUndefined),
           (''consumption_preferences'', JUndefined)] ''raw_scores''
   \<and> formDataOf (fst (run Classify [(''qs'', JObj [(''version'', JStr ''2016-05-20'')])]
         (ArgObj [(''parameters'', JStr ''{}'')]) None))
     = Some [(''images_file'', FileObject
               \<lparr>data = JUndefined,
                contentType = CHR 0x22 # ''application/octet-stream'' @ [CHR 0x22]\<rparr>),
             (''parameters'', Plain (JStr ''{}''))]"
  by (simp add: profile_def classify_def queryOf_def formDataOf_def descriptor_def Let_def
      del: extendProps.simps)

section \<open>Construction needs a version date\<close>

text \<open>
  C6. Let \<open>BaseService\<close> be such that, when it returns on the options object \<open>opts\<close>, the
  \<open>_options\<close> it stored carry \<open>opts.version_date\<close> and a \<open>qs\<close> object. If
  \<open>opts.version_date\<close> is \<open>undefined\<close>, each of the three constructors fails, and once
  \<open>BaseService\<close> has returned it fails with its ``version_date was not specified'' error;
  nothing is dispatched, since a constructor only returns an instance or an error. If
  \<open>opts.version_date\<close> is present, each constructor fails only where \<open>BaseService\<close>
  itself does, and otherwise returns the stored \<open>_options\<close> with \<open>qs.version\<close> set to
  \<open>opts.version_date\<close>.
\<close>

theorem version_date_checked:
  assumes stored: "\<And>this_options. BaseService (Some opts) = Inr this_options \<Longrightarrow>
             get this_options ''version_date'' = get opts ''version_date''
             \<and> (\<exists>q. get this_options ''qs'' = JObj q)"
  shows "(get opts ''version_date'' = JUndefined \<longrightarrow>
            isl (PersonalityInsightsV3Generated BaseService (Some opts))
          \<and> isl (ToneAnalyzerV3 BaseService (Some opts))
          \<and> isl (VisualRecognitionV3 BaseService (Some opts))
          \<and> (\<forall>this_options. BaseService (Some opts) = Inr this_options \<longrightarrow>
                PersonalityInsightsV3Generated BaseService (Some opts) =
                  Inl (Error ''Argument error: version_date was not specified'')
              \<and> ToneAnalyzerV3 BaseService (Some opts) =
                  Inl (Error ''Argument error: version_date was not specified, use '')
              \<and> VisualRecognitionV3 BaseService (Some opts) =
                  Inl (Error ''Argument error: version_date was not specified'')))
       \<and> (get opts ''version_date'' \<noteq> JUndefined \<longrightarrow>
            PersonalityInsightsV3Generated BaseService (Some opts) =
              (case BaseService (Some opts) of
                 Inl e \<Rightarrow> Inl e
               | Inr this_options \<Rightarrow>
                   Inr (put this_options ''qs''
                         (JObj (put (case get this_options ''qs'' of JObj q \<Rightarrow> q | _ \<Rightarrow> [])
                                  ''version'' (get opts ''version_date'')))))
          \<and> ToneAnalyzerV3 BaseService (Some opts) =
              PersonalityInsightsV3Generated BaseService (Some opts)
          \<and> VisualRecognitionV3 BaseService (Some opts) =
              PersonalityInsightsV3Generated BaseService (Some opts))"
proof (cases "BaseService (Some opts)")
  case (Inl e)
  then show ?thesis
    by (simp add: PersonalityInsightsV3Generated_def ToneAnalyzerV3_def VisualRecognitionV3_def)
next
  case (Inr this_options)
  from stored [OF Inr] obtain q where
    vd: "get this_options ''version_date'' = get opts ''version_date''" and
    q: "get this_options ''qs'' = JObj q" by blast
  from Inr vd q show ?thesis
    by (simp add: PersonalityInsightsV3Generated_def ToneAnalyzerV3_def VisualRecognitionV3_def
        setVersion_def)
qed

text \<open>An instance of it, with a \<open>BaseService\<close> that stores the caller's options after an empty
  \<open>qs\<close>.\<close>

theorem version_date_checked_witness:
  "PersonalityInsightsV3Generated
     (\<lambda>user_options.
        Inr ((''qs'', JObj []) # (case user_options of None \<Rightarrow> [] | Some opts \<Rightarrow> opts)))
     (Some [(''username'', JStr ''u''), (''password'', JStr ''p'')])
   = Inl (Error ''Argument error: version_date was not specified'')
   \<and> ToneAnalyzerV3
     (\<lambda>user_options.
        Inr ((''qs'', JObj []) # (case user_options of None \<Rightarrow> [] | Some opts \<Rightarrow> opts)))
     (Some [(''username'', JStr ''u''), (''password'', JStr ''p''),
            (''version_date'', JStr ''2017-09-21'')])
   = Inr [(''qs'', JObj [(''version'', JStr ''2017-09-21'')]),
          (''username'', JStr ''u''), (''password'', JStr ''p''),
          (''version_date'', JStr ''2017-09-21'')]"
  using
    version_date_checked
      [of "\<lambda>user_options.
             Inr ((''qs'', JObj []) # (case user_options of None \<Rightarrow> [] | Some opts \<Rightarrow> opts))"
          "[(''username'', JStr ''u''), (''password'', JStr ''p'')]"]
    version_date_checked
      [of "\<lambda>user_options.
             Inr ((''qs'', JObj []) # (case user_options of None \<Rightarrow> [] | Some opts \<Rightarrow> opts))"
          "[(''username'', JStr ''u''), (''password'', JStr ''p''),
            (''version_date'', JStr ''2017-09-21'')]"]
  by simp

section \<open>The JSON flag follows the content type\<close>

text \<open>
  C7. For every call to \<open>profile\<close> or \<open>tone\<close> in which the required parameters are all
  present, the request wrapper is reached with a descriptor whose \<open>json\<close> flag is true if
  and only if \<open>params.content_type\<close> is the string \<open>application/json\<close>, and whose body is
  the caller's \<open>content\<close> (for \<open>tone\<close>, \<open>tone_input\<close>) unchanged; in particular the
  flag is false for \<open>text/plain\<close> and \<open>text/html\<close>.
\<close>

theorem json_flag:
  assumes "op = Profile \<or> op = Tone"
    and "getMissingParams (orEmpty params) (requiredParamsOf op) = []"
  shows "\<exists>d. fst (run op this_options params callback) = Dispatched d callback
           \<and> json (options d) =
               Some (get (orEmpty params) ''content_type'' = JStr ''application/json'')
           \<and> body (options d) =
               Some (get (orEmpty params) (if op = Profile then ''content'' else ''tone_input''))
           \<and> (get (orEmpty params) ''content_type'' \<in> {JStr ''text/plain'', JStr ''text/html''}
                \<longrightarrow> json (options d) = Some False)"
proof -
  from assms have nu: "params \<noteq> ArgUndefined"
    by (auto simp: required_present_obj)
  from assms(1) show ?thesis
  proof
    assume "op = Profile"
    with assms(2) nu show ?thesis
      by (cases params) (auto simp: profile_def Let_def simp del: extendProps.simps)
  next
    assume "op = Tone"
    with assms(2) nu show ?thesis
      by (cases params) (auto simp: tone_def Let_def simp del: extendProps.simps)
  qed
qed

theorem json_flag_witness:
  "fst (run Tone [] (ArgObj [(''tone_input'', JStr ''hi''),
                             (''content_type'', JStr ''text/html'')]) None)
   = Dispatched
       \<lparr>options =
          \<lparr>url = ''/v3/tone'', httpMethod = ''POST'', json = Some False,
           body = Some (JStr ''hi''),
           qs = Some [(''sentences'', JUndefined), (''tones'', JUndefined)],
           path = None, formData = None\<rparr>,
        defaultOptions =
          [(''headers'', JObj [(''accept'', JStr ''application/json''),
                               (''content-type'', JStr ''text/html'')])]\<rparr>
       None"
  using json_flag [of Tone "ArgObj [(''tone_input'', JStr ''hi''),
                             (''content_type'', JStr ''text/html'')]" "[]" None]
  by (simp add: tone_def Let_def)

section \<open>\<open>profile_csv\<close> asks for CSV\<close>

text \<open>
  C8. For every call to \<open>profile_csv\<close> in which the required parameters are all present,
  whatever \<open>params.content_type\<close> is and whatever the instance's \<open>_options\<close> held, the
  request wrapper is reached with headers whose \<open>accept\<close> is \<open>text/csv\<close>.
\<close>

theorem profile_csv_accept:
  assumes "getMissingParams (orEmpty params) (requiredParamsOf ProfileCsv) = []"
  shows "\<exists>d. fst (run ProfileCsv this_options params callback) = Dispatched d callback
           \<and> header (defaultOptions d) ''accept'' = JStr ''text/csv''"
proof -
  from assms have "params \<noteq> ArgUndefined"
    by (simp add: required_present_obj)
  with assms show ?thesis
    by (cases params)
      (simp_all add: profile_csv_def Let_def header_merged get_extendProps_first
        del: extendProps.simps)
qed

theorem profile_csv_accept_witness:
  "map_option (\<lambda>d. header (defaultOptions d) ''accept'')
     (descriptor (fst (run ProfileCsv [(''headers'', JObj [(''accept'', JStr ''text/plain'')])]
        (ArgObj [(''content'', JStr ''hi''), (''content_type'', JStr ''application/json'')])
        (Some ''done''))))
   = Some (JStr ''text/csv'')"
  using profile_csv_accept
    [of "ArgObj [(''content'', JStr ''hi''), (''content_type'', JStr ''application/json'')]"
        "[(''headers'', JObj [(''accept'', JStr ''text/plain'')])]" "Some ''done''"]
  by (auto simp: descriptor_def)

section \<open>\<open>profile_csv\<close> against \<open>profile\<close>\<close>

text \<open>
  C10. For every \<open>params\<close> with \<open>content\<close> and \<open>content_type\<close> present, on the same
  instance and with the same callback, \<open>profile\<close> and \<open>profile_csv\<close> both reach the request
  wrapper, with the same \<open>options\<close> (url \<open>/v3/profile\<close>, method \<open>POST\<close>, json flag, body,
  query), and the \<open>defaultOptions\<close> of \<open>profile_csv\<close> are those of \<open>profile\<close> with the
  \<open>accept\<close> header set to \<open>text/csv\<close> where \<open>profile\<close> has \<open>application/json\<close>: every
  other header and every other key is the same.
\<close>

theorem profile_csv_vs_profile:
  assumes "getMissingParams (orEmpty params) [''content'', ''content_type''] = []"
  shows "\<exists>d1 d2.
           fst (profile this_options params callback) = Dispatched d1 callback
         \<and> fst (profile_csv this_options params callback) = Dispatched d2 callback
         \<and> options d2 = options d1
         \<and> url (options d1) = ''/v3/profile'' \<and> httpMethod (options d1) = ''POST''
         \<and> header (defaultOptions d1) ''accept'' = JStr ''application/json''
         \<and> header (defaultOptions d2) ''accept'' = JStr ''text/csv''
         \<and> defaultOptions d2 = setHeader (defaultOptions d1) ''accept'' (JStr ''text/csv'')
         \<and> (\<forall>h. h \<noteq> ''accept'' \<longrightarrow>
                header (defaultOptions d2) h = header (defaultOptions d1) h)
         \<and> (\<forall>n. n \<noteq> ''headers'' \<longrightarrow>
                get (defaultOptions d2) n = get (defaultOptions d1) n)"
proof -
  from assms have nu: "params \<noteq> ArgUndefined"
    by (simp add: required_present_obj)
  let ?p = "orEmpty params"
  let ?rest = "[(''content-type'', get ?p ''content_type''),
                (''content-language'', get ?p ''content_language''),
                (''accept-language'', get ?p ''accept_language'')]"
  define m1 where "m1 = extendProps this_options
               [(''headers'', JObj ((''accept'', JStr ''application/json'') # ?rest))]"
  define m2 where "m2 = extendProps this_options
               [(''headers'', JObj ((''accept'', JStr ''text/csv'') # ?rest))]"
  define ro where "ro = \<lparr>url = ''/v3/profile'', httpMethod = ''POST'',
             json = Some (get ?p ''content_type'' = JStr ''application/json''),
             body = Some (get ?p ''content''),
             qs = Some [(''raw_scores'', get ?p ''raw_scores''),
                        (''csv_headers'', get ?p ''csv_headers''),
                        (''consumption_preferences'', get ?p ''consumption_preferences'')],
             path = None, formData = None\<rparr>"
  have fresh: "''accept'' \<notin> fst ` set ?rest" by simp
  have p1: "fst (profile this_options params callback) =
              Dispatched \<lparr>options = ro, defaultOptions = m1\<rparr> callback"
    unfolding m1_def ro_def using assms nu
    by (cases params) (simp_all add: profile_def Let_def del: extendProps.simps)
  have p2: "fst (profile_csv this_options params callback) =
              Dispatched \<lparr>options = ro, defaultOptions = m2\<rparr> callback"
    unfolding m2_def ro_def using assms nu
    by (cases params) (simp_all add: profile_csv_def Let_def del: extendProps.simps)
  have eq: "m2 = setHeader m1 ''accept'' (JStr ''text/csv'')"
    unfolding m1_def m2_def by (rule setHeader_merged [OF fresh, symmetric])
  have a1: "header m1 ''accept'' = JStr ''application/json''"
    unfolding m1_def header_merged using fresh by (rule get_extendProps_first)
  have a2: "header m2 ''accept'' = JStr ''text/csv''"
    unfolding m2_def header_merged using fresh by (rule get_extendProps_first)
  have others: "\<forall>h. h \<noteq> ''accept'' \<longrightarrow> header m2 h = header m1 h"
    unfolding eq by (simp add: header_setHeader)
  have outside: "\<forall>n. n \<noteq> ''headers'' \<longrightarrow> get m2 n = get m1 n"
    unfolding eq by (simp add: get_setHeader)
  have u: "url ro = ''/v3/profile'' \<and> httpMethod ro = ''POST''"
    unfolding ro_def by simp
  from p1 p2 eq a1 a2 others outside u show ?thesis
    by (intro exI [of _ "\<lparr>options = ro, defaultOptions = m1\<rparr>"]
              exI [of _ "\<lparr>options = ro, defaultOptions = m2\<rparr>"]) simp
qed

theorem profile_csv_vs_profile_witness:
  "map_option defaultOptions
     (descriptor (fst (profile_csv [] (ArgObj [(''content'', JStr ''hi''),
                                              (''content_type'', JStr ''text/plain'')]) None)))
   = map_option (\<lambda>d. setHeader (defaultOptions d) ''accept'' (JStr ''text/csv''))
     (descriptor (fst (profile [] (ArgObj [(''content'', JStr ''hi''),
                                          (''content_type'', JStr ''text/plain'')]) None)))"
  using profile_csv_vs_profile
    [of "ArgObj [(''content'', JStr ''hi''), (''content_type'', JStr ''text/plain'')]" "[]" None]
  by (auto simp: descriptor_def)

section \<open>The content type of binary parts\<close>

text \<open>All binary parts, for every input: \<open>createClassifier\<close> and \<open>updateClassifier\<close> declare
  \<open>application/octet-stream\<close>; \<open>classify\<close> and \<open>detectFaces\<close> declare that string wrapped
  in double quotes.\<close>

lemma file_part_content_types:
  assumes "run op this_options params callback = (Dispatched d c, this_options')"
    and "formData (options d) = Some f"
    and "(k, fp) \<in> set (fileParts f)"
  shows "contentType fp =
           (if op = Classify \<or> op = DetectFaces
            then CHR 0x22 # ''application/octet-stream'' @ [CHR 0x22]
            else ''application/octet-stream'')"
  using assms
  by (cases op; cases params; cases callback)
     (auto simp: operation_defs Let_def split: if_splits simp del: extendProps.simps)

text \<open>
  C9. The spec has every binary part declare exactly \<open>application/octet-stream\<close>.
  The example files of \<open>updateClassifier\<close> do; the \<open>images_file\<close> part of \<open>classify\<close> and
  of \<open>detectFaces\<close> declares a string of 26 characters that starts and ends with a double
  quote, which is a different string.
\<close>

theorem classify_content_type_quoted:
  "map_option fileParts
     (formDataOf (fst (run Classify
        [(''qs'', JObj [(''version'', JStr ''2016-05-20'')])]
        (ArgObj [(''images_file'', JStream ''fruitbowl.jpg'')]) None)))
   = Some [(''images_file'',
            \<lparr>data = JStream ''fruitbowl.jpg'',
             contentType = CHR 0x22 # ''application/octet-stream'' @ [CHR 0x22]\<rparr>)]
   \<and> map_option fileParts
     (formDataOf (fst (run DetectFaces
        [(''qs'', JObj [(''version'', JStr ''2016-05-20'')])]
        (ArgObj [(''images_file'', JStream ''prez.jpg'')]) None)))
   = Some [(''images_file'',
            \<lparr>data = JStream ''prez.jpg'',
             contentType = CHR 0x22 # ''application/octet-stream'' @ [CHR 0x22]\<rparr>)]
   \<and> CHR 0x22 # ''application/octet-stream'' @ [CHR 0x22] \<noteq> ''application/octet-stream''
   \<and> length (CHR 0x22 # ''application/octet-stream'' @ [CHR 0x22]) = 26
   \<and> map_option fileParts
     (formDataOf (fst (run UpdateClassifier
        [(''qs'', JObj [(''version'', JStr ''2016-05-20'')])]
        (ArgObj [(''classifier_id'', JStr ''dogs_1''),
                 (''negative_examples'', JStream ''cats.zip'')]) None)))
   = Some [(''classname_positive_examples'',
            \<lparr>data = JUndefined, contentType = ''application/octet-stream''\<rparr>),
           (''negative_examples'',
            \<lparr>data = JStream ''cats.zip'', contentType = ''application/octet-stream''\<rparr>)]"
  by (simp add: classify_def detectFaces_def updateClassifier_def formDataOf_def descriptor_def
      Let_def del: extendProps.simps)

section \<open>What a call does to the instance\<close>

text \<open>An operation writes to the instance's \<open>_options\<close> under \<open>headers\<close> only.\<close>

lemma run_keeps_other_keys:
  assumes "n \<noteq> ''headers''"
  shows "get (snd (run op this_options params callback)) n = get this_options n"
  using assms
  by (cases op; cases params; cases callback)
     (simp_all add: operation_defs Let_def get_put get_extendProps_other)

text \<open>The \<open>defaultOptions\<close> handed to the request wrapper are the instance's \<open>_options\<close>
  after the call: \<open>extend\<close> returns its target.\<close>

lemma dispatched_options_alias:
  assumes "run op this_options params callback = (Dispatched d c, this_options')"
  shows "this_options' = defaultOptions d"
  using assms
  by (cases op; cases params; cases callback)
     (auto simp: operation_defs Let_def split: if_splits simp del: extendProps.simps)

text \<open>
  C1. The spec has no operation change the instance's \<open>_options\<close>. Every operation
  that gets past validation merges its headers into \<open>this._options\<close>, the target of
  \<open>extend\<close>. On an instance as construction leaves it, one call of \<open>profile\<close> with
  \<open>content_language: 'es'\<close> leaves \<open>headers\<close> in \<open>_options\<close>; a second call of
  \<open>profile\<close> that omits \<open>content_language\<close> then sends \<open>content-language: es\<close>, where
  the same call on a fresh instance sends no such header.
\<close>

theorem options_mutated:
  "calls [(''version_date'', JStr ''2017-10-13''),
          (''qs'', JObj [(''version'', JStr ''2017-10-13'')])]
     [(Profile,
       ArgObj [(''content'', JStr ''hola''), (''content_type'', JStr ''text/plain''),
               (''content_language'', JStr ''es'')],
       None)]
   = [(''version_date'', JStr ''2017-10-13''),
      (''qs'', JObj [(''version'', JStr ''2017-10-13'')]),
      (''headers'', JObj [(''accept'', JStr ''application/json''),
                          (''content-type'', JStr ''text/plain''),
                          (''content-language'', JStr ''es'')])]
   \<and> map_option (\<lambda>d. header (defaultOptions d) ''content-language'')
       (descriptor (fst (run Profile
          (calls [(''version_date'', JStr ''2017-10-13''),
                  (''qs'', JObj [(''version'', JStr ''2017-10-13'')])]
             [(Profile,
               ArgObj [(''content'', JStr ''hola''), (''content_type'', JStr ''text/plain''),
                       (''content_language'', JStr ''es'')],
               None)])
          (ArgObj [(''content'', JStr ''hello''), (''content_type'', JStr ''text/plain'')])
          None)))
     = Some (JStr ''es'')
   \<and> map_option (\<lambda>d. header (defaultOptions d) ''content-language'')
       (descriptor (fst (run Profile
          [(''version_date'', JStr ''2017-10-13''),
           (''qs'', JObj [(''version'', JStr ''2017-10-13'')])]
          (ArgObj [(''content'', JStr ''hello''), (''content_type'', JStr ''text/plain'')])
          None)))
     = Some JUndefined"
  by (simp add: profile_def descriptor_def header_def Let_def)

end
